theory Spec2Isabelle
  imports Complex_Main "HOL-Library.Word" "HOL-Library.Multiset"
begin

unbundle bit_operations_syntax

section \<open>Shared types\<close>

text \<open>
  \<open>Color\<close>, \<open>TriggerEvent\<close> and \<open>IndexType\<close> come from headers that are not part of
  the sources (\<open>types.h\<close>, \<open>features_common.h\<close>, \<open>nnue_common.h\<close>); they are written down
  here as the sources use them: two colours, the five refresh triggers of the
  \<open>switch\<close> in \<open>FeatureSetBase::append_changed_indices\<close>, and a 32-bit unsigned index.
  An \<open>IndexList\<close> is used only through \<open>push_back\<close>, \<open>size\<close> and indexing, so it is a list.
\<close>

datatype Color = WHITE | BLACK

datatype TriggerEvent =
  kNone | kFriendKingMoved | kEnemyKingMoved | kAnyKingMoved | kAnyPieceMoved

type_synonym IndexType = "32 word"
type_synonym IndexList = "IndexType list"

text \<open>\<open>operator~\<close> on \<open>Color\<close>: the other side.\<close>

fun opposite :: "Color \<Rightarrow> Color" where
  "opposite WHITE = BLACK"
| "opposite BLACK = WHITE"

section \<open>Feature CastlingRight (nnue/features/castling\_right.cpp)\<close>

text \<open>
  The two fields of the position that the feature reads:
  \<open>pos.state()->castlingRights\<close> and \<open>pos.state()->previous->castlingRights\<close>,
  both C++ \<open>int\<close>, here 32-bit words read in two's complement. \<open><<\<close> is \<open>push_bit\<close>, \<open>>>\<close> on a signed
  int is the arithmetic shift \<open>signed_drop_bit\<close>, \<open>&\<close> is \<open>AND\<close>.
\<close>

record CastlingPosition =
  castlingRights :: "32 word"
  previous_castlingRights :: "32 word"

definition CastlingRight_kDimensions :: IndexType where
  "CastlingRight_kDimensions = 4"

definition CastlingRight_kMaxActiveDimensions :: IndexType where
  "CastlingRight_kMaxActiveDimensions = 4"

text \<open>The expression of the \<open>else\<close> branch commented "Invert the perspective".\<close>

definition invert_perspective :: "32 word \<Rightarrow> 32 word" where
  "invert_perspective castling_rights =
     (push_bit 2 (castling_rights AND 3)) AND ((signed_drop_bit 2 castling_rights) AND 3)"

definition relative_rights :: "Color \<Rightarrow> 32 word \<Rightarrow> 32 word" where
  "relative_rights perspective castling_rights =
     (if perspective = WHITE then castling_rights else invert_perspective castling_rights)"

text \<open>
  \<open>append_active_indices\<close>: the first argument is \<open>RawFeatures::kMaxActiveDimensions\<close>,
  a constant of the network architecture header in use. The loop runs \<open>i\<close> over
  \<open>0 ..< kDimensions\<close> and pushes \<open>i\<close> when bit \<open>i\<close> of the relative rights is set.
\<close>

definition CastlingRight_append_active_indices ::
  "IndexType \<Rightarrow> CastlingPosition \<Rightarrow> Color \<Rightarrow> IndexList \<Rightarrow> IndexList" where
  "CastlingRight_append_active_indices raw_kMaxActiveDimensions pos perspective active =
     (if raw_kMaxActiveDimensions < CastlingRight_kMaxActiveDimensions then active
      else
        let relative_castling_rights = relative_rights perspective (castlingRights pos)
        in fold (\<lambda>i act.
                   if relative_castling_rights AND (push_bit i 1) \<noteq> 0
                   then act @ [of_nat i] else act)
                [0 ..< unat CastlingRight_kDimensions] active)"

text \<open>
  \<open>append_changed_indices\<close>: index \<open>i\<close> is pushed to \<open>removed\<close> when the bit was set
  before and is clear now; \<open>added\<close> is never touched. The result is the pair
  \<open>(removed, added)\<close>.
\<close>

definition CastlingRight_append_changed_indices ::
  "CastlingPosition \<Rightarrow> Color \<Rightarrow> IndexList \<Rightarrow> IndexList \<Rightarrow> IndexList \<times> IndexList" where
  "CastlingRight_append_changed_indices pos perspective removed added =
     (let relative_previous_castling_rights =
            relative_rights perspective (previous_castlingRights pos);
          relative_current_castling_rights =
            relative_rights perspective (castlingRights pos)
      in (fold (\<lambda>i rem.
                  if relative_previous_castling_rights AND (push_bit i 1) \<noteq> 0
                     \<and> relative_current_castling_rights AND (push_bit i 1) = 0
                  then rem @ [of_nat i] else rem)
               [0 ..< unat CastlingRight_kDimensions] removed,
          added))"

section \<open>Feature sets (nnue/features/feature\_set.h)\<close>

text \<open>
  A feature extractor type is a bundle of compile-time constants and two static
  functions; a record holds them. \<open>'pos\<close> is the position type.
\<close>

record 'pos FeatureType =
  kName :: string
  kHashValue :: "32 word"
  kDimensions :: IndexType
  kMaxActiveDimensions :: IndexType
  kRefreshTrigger :: TriggerEvent
  append_active_indices :: "'pos \<Rightarrow> Color \<Rightarrow> IndexList \<Rightarrow> IndexList"
  append_changed_indices ::
    "'pos \<Rightarrow> Color \<Rightarrow> IndexList \<Rightarrow> IndexList \<Rightarrow> IndexList \<times> IndexList"

text \<open>
  The template \<open>FeatureSet<FirstFeatureType, RemainingFeatureTypes...>\<close> and its
  specialisation \<open>FeatureSet<FeatureType>\<close> for one argument: a non-empty list of
  extractor types.
\<close>

datatype 'pos FeatureSet =
  FeatureSet1 "'pos FeatureType"
| FeatureSetN "'pos FeatureType" "'pos FeatureSet"

text \<open>The template arguments, first to last.\<close>

fun feature_types :: "'pos FeatureSet \<Rightarrow> 'pos FeatureType list" where
  "feature_types (FeatureSet1 f) = [f]"
| "feature_types (FeatureSetN head tail) = head # feature_types tail"

fun FeatureSet_kHashValue :: "'pos FeatureSet \<Rightarrow> 32 word" where
  "FeatureSet_kHashValue (FeatureSet1 f) = kHashValue f"
| "FeatureSet_kHashValue (FeatureSetN head tail) =
     kHashValue head XOR (push_bit 1 (FeatureSet_kHashValue tail))
       XOR (drop_bit 31 (FeatureSet_kHashValue tail))"

fun FeatureSet_kDimensions :: "'pos FeatureSet \<Rightarrow> IndexType" where
  "FeatureSet_kDimensions (FeatureSet1 f) = kDimensions f"
| "FeatureSet_kDimensions (FeatureSetN head tail) =
     kDimensions head + FeatureSet_kDimensions tail"

fun FeatureSet_kMaxActiveDimensions :: "'pos FeatureSet \<Rightarrow> IndexType" where
  "FeatureSet_kMaxActiveDimensions (FeatureSet1 f) = kMaxActiveDimensions f"
| "FeatureSet_kMaxActiveDimensions (FeatureSetN head tail) =
     kMaxActiveDimensions head + FeatureSet_kMaxActiveDimensions tail"

text \<open>
  The loop \<open>for (i = start; i < list->size(); ++i) (*list)[i] += Tail::kDimensions\<close>:
  every entry from position \<open>start\<close> on is shifted by the offset.
\<close>

definition shift_from :: "nat \<Rightarrow> IndexType \<Rightarrow> IndexList \<Rightarrow> IndexList" where
  "shift_from start offset xs = take start xs @ map (\<lambda>x. x + offset) (drop start xs)"

fun collect_active_indices ::
  "'pos FeatureSet \<Rightarrow> 'pos \<Rightarrow> TriggerEvent \<Rightarrow> Color \<Rightarrow> IndexList \<Rightarrow> IndexList" where
  "collect_active_indices (FeatureSet1 f) pos trigger perspective active =
     (if kRefreshTrigger f = trigger
      then append_active_indices f pos perspective active else active)"
| "collect_active_indices (FeatureSetN head tail) pos trigger perspective active =
     (let active1 = collect_active_indices tail pos trigger perspective active
      in if kRefreshTrigger head = trigger
         then shift_from (length active1) (FeatureSet_kDimensions tail)
                (append_active_indices head pos perspective active1)
         else active1)"

fun collect_changed_indices ::
  "'pos FeatureSet \<Rightarrow> 'pos \<Rightarrow> TriggerEvent \<Rightarrow> Color \<Rightarrow> IndexList \<Rightarrow> IndexList
     \<Rightarrow> IndexList \<times> IndexList" where
  "collect_changed_indices (FeatureSet1 f) pos trigger perspective removed added =
     (if kRefreshTrigger f = trigger
      then append_changed_indices f pos perspective removed added else (removed, added))"
| "collect_changed_indices (FeatureSetN head tail) pos trigger perspective removed added =
     (let (removed1, added1) =
            collect_changed_indices tail pos trigger perspective removed added
      in if kRefreshTrigger head = trigger
         then let (removed2, added2) =
                    append_changed_indices head pos perspective removed1 added1
              in (shift_from (length removed1) (FeatureSet_kDimensions tail) removed2,
                  shift_from (length added1) (FeatureSet_kDimensions tail) added2)
         else (removed1, added1))"

text \<open>
  \<open>pos.state()->dirtyPiece\<close>: the number of moved pieces of the last move and the
  pieces themselves (\<open>piece[0]\<close> is the moving piece). Pieces and piece types are
  declared in \<open>types.h\<close>, which is not part of the sources; \<open>make_piece\<close>, \<open>type_of\<close>
  and \<open>KING\<close> are therefore taken as parameters, bundled in \<open>PieceOps\<close>.
\<close>

record 'pc DirtyPiece =
  dirty_num :: int
  piece :: "nat \<Rightarrow> 'pc"

record ('pc, 'pt) PieceOps =
  make_piece :: "Color \<Rightarrow> 'pt \<Rightarrow> 'pc"
  type_of :: "'pc \<Rightarrow> 'pt"
  KING :: 'pt

text \<open>
  The three output arrays of \<open>append_changed_indices\<close>, each indexed by perspective:
  \<open>removed[2]\<close>, \<open>added[2]\<close>, \<open>reset[2]\<close>.
\<close>

type_synonym ChangedState = "(Color \<Rightarrow> IndexList) \<times> (Color \<Rightarrow> IndexList) \<times> (Color \<Rightarrow> bool)"

text \<open>
  The part of the loop body after the \<open>switch\<close>: full recomputation into \<open>added\<close>
  when the perspective's reset flag is set, the incremental lists otherwise.
\<close>

definition after_switch ::
  "'pos FeatureSet \<Rightarrow> 'pos \<Rightarrow> TriggerEvent \<Rightarrow> Color \<Rightarrow> ChangedState \<Rightarrow> ChangedState" where
  "after_switch fs pos trigger perspective st =
     (case st of (removed, added, reset) \<Rightarrow>
        if reset perspective
        then (removed,
              added(perspective :=
                collect_active_indices fs pos trigger perspective (added perspective)),
              reset)
        else (case collect_changed_indices fs pos trigger perspective
                     (removed perspective) (added perspective) of
                (r, a) \<Rightarrow> (removed(perspective := r), added(perspective := a), reset)))"

text \<open>
  One iteration of \<open>for (Color perspective : {WHITE, BLACK})\<close>. A \<open>continue\<close> of the
  source leaves the state as it is; \<open>break\<close> leaves the \<open>switch\<close> and goes on with
  \<open>after_switch\<close>.
\<close>

definition changed_indices_body ::
  "('pc, 'pt) PieceOps \<Rightarrow> 'pos FeatureSet \<Rightarrow> 'pos \<Rightarrow> 'pc DirtyPiece \<Rightarrow> TriggerEvent
     \<Rightarrow> Color \<Rightarrow> ChangedState \<Rightarrow> ChangedState" where
  "changed_indices_body T fs pos dp trigger perspective st =
     (case st of (removed, added, reset) \<Rightarrow>
        (case trigger of
           kNone \<Rightarrow> after_switch fs pos trigger perspective st
         | kFriendKingMoved \<Rightarrow>
             if dirty_num dp = 0 then st
             else after_switch fs pos trigger perspective
                    (removed, added,
                     reset(perspective := (piece dp 0 = make_piece T perspective (KING T))))
         | kEnemyKingMoved \<Rightarrow>
             if dirty_num dp = 0 then st
             else after_switch fs pos trigger perspective
                    (removed, added,
                     reset(perspective :=
                       (piece dp 0 = make_piece T (opposite perspective) (KING T))))
         | kAnyKingMoved \<Rightarrow>
             if dirty_num dp = 0 then st
             else after_switch fs pos trigger perspective
                    (removed, added,
                     reset(perspective := (type_of T (piece dp 0) = KING T)))
         | kAnyPieceMoved \<Rightarrow>
             after_switch fs pos trigger perspective
               (removed, added, reset(perspective := True))))"

definition FeatureSetBase_append_changed_indices ::
  "('pc, 'pt) PieceOps \<Rightarrow> 'pos FeatureSet \<Rightarrow> 'pos \<Rightarrow> 'pc DirtyPiece \<Rightarrow> TriggerEvent
     \<Rightarrow> ChangedState \<Rightarrow> ChangedState" where
  "FeatureSetBase_append_changed_indices T fs pos dp trigger st =
     fold (changed_indices_body T fs pos dp trigger) [WHITE, BLACK] st"

definition FeatureSetBase_append_active_indices ::
  "'pos FeatureSet \<Rightarrow> 'pos \<Rightarrow> TriggerEvent \<Rightarrow> (Color \<Rightarrow> IndexList) \<Rightarrow> (Color \<Rightarrow> IndexList)" where
  "FeatureSetBase_append_active_indices fs pos trigger active =
     fold (\<lambda>perspective act.
             act(perspective :=
               collect_active_indices fs pos trigger perspective (act perspective)))
          [WHITE, BLACK] active"

text \<open>The extractor \<open>CastlingRight\<close> as a feature type, with the constants of its header.\<close>

definition CastlingRight :: "IndexType \<Rightarrow> CastlingPosition FeatureType" where
  "CastlingRight raw_kMaxActiveDimensions =
     \<lparr> kName = ''CastlingRight'',
       kHashValue = 0x913968AA,
       kDimensions = CastlingRight_kDimensions,
       kMaxActiveDimensions = CastlingRight_kMaxActiveDimensions,
       kRefreshTrigger = kNone,
       append_active_indices = CastlingRight_append_active_indices raw_kMaxActiveDimensions,
       append_changed_indices = CastlingRight_append_changed_indices \<rparr>"

section \<open>Layer Sum (nnue/layers/sum.h)\<close>

text \<open>
  A summand is any previous layer; of a layer only \<open>read_parameters\<close> matters here.
  It takes the input stream and either returns whether the read succeeded, or leaves
  by an exception (a \<open>std::istream\<close> whose exception mask is set throws from a failing
  read). The outcome is \<open>Inr\<close> of the returned flag or \<open>Inl\<close> of the exception. The
  state \<open>'s\<close> stands for everything the call can change, the stream and the layers'
  parameters; a call that throws leaves a state behind as well.
\<close>

record ('s, 'x) Layer =
  read_parameters :: "'s \<Rightarrow> ('x + bool) \<times> 's"

text \<open>
  \<open>Sum<FirstPreviousLayer, RemainingPreviousLayers...>\<close>, derived from
  \<open>Sum<RemainingPreviousLayers...>\<close>, and the specialisation \<open>Sum<PreviousLayer>\<close>.
\<close>

datatype ('s, 'x) Sum =
  Sum1 "('s, 'x) Layer"
| SumN "('s, 'x) Layer" "('s, 'x) Sum"

text \<open>
  \<open>read_parameters\<close>. Neither version has a \<open>try\<close> block: an exception thrown by
  \<open>Tail::read_parameters\<close> or by \<open>previous_layer_.read_parameters\<close> leaves the function
  as it came.
\<close>

fun Sum_read_parameters :: "('s, 'x) Sum \<Rightarrow> 's \<Rightarrow> ('x + bool) \<times> 's" where
  "Sum_read_parameters (Sum1 previous_layer) stream = read_parameters previous_layer stream"
| "Sum_read_parameters (SumN previous_layer tail) stream =
     (case Sum_read_parameters tail stream of
        (Inl exc, stream') \<Rightarrow> (Inl exc, stream')
      | (Inr ok, stream') \<Rightarrow>
          if \<not> ok then (Inr False, stream')
          else read_parameters previous_layer stream')"

text \<open>The summands in template order, first to last.\<close>

fun summands :: "('s, 'x) Sum \<Rightarrow> ('s, 'x) Layer list" where
  "summands (Sum1 previous_layer) = [previous_layer]"
| "summands (SumN previous_layer tail) = previous_layer # summands tail"

text \<open>
  Reading the layers of a list one after the other, in the words of the claim as
  amended: stop at the first read that does not return true and pass its outcome on,
  be it the flag false or an exception; report success when every read returned true.
\<close>

fun read_until_failure :: "('s, 'x) Layer list \<Rightarrow> 's \<Rightarrow> ('x + bool) \<times> 's" where
  "read_until_failure [] stream = (Inr True, stream)"
| "read_until_failure (l # ls) stream =
     (case read_parameters l stream of
        (outcome, stream') \<Rightarrow>
          if outcome = Inr True then read_until_failure ls stream' else (outcome, stream'))"

section \<open>PRNG and Algo::shuffle (misc.h)\<close>

text \<open>
  The state of \<open>PRNG\<close> is its single field \<open>s\<close>, a \<open>uint64_t\<close>. Each function returns
  the value and the new state.
\<close>

type_synonym PRNG = "64 word"

definition PRNG_rand64 :: "PRNG \<Rightarrow> 64 word \<times> PRNG" where
  "PRNG_rand64 s =
     (let s1 = s XOR drop_bit 12 s;
          s2 = s1 XOR push_bit 25 s1;
          s3 = s2 XOR drop_bit 27 s2
      in (s3 * 2685821657736338717, s3))"

text \<open>\<open>rand(n)\<close> is \<open>rand64() % n\<close>.\<close>

definition PRNG_rand :: "64 word \<Rightarrow> PRNG \<Rightarrow> 64 word \<times> PRNG" where
  "PRNG_rand n s = (case PRNG_rand64 s of (r, s') \<Rightarrow> (r mod n, s'))"

text \<open>\<open>std::swap(buf[i], buf[j])\<close>.\<close>

definition swap :: "nat \<Rightarrow> nat \<Rightarrow> 'a list \<Rightarrow> 'a list" where
  "swap i j buf = buf[i := buf ! j, j := buf ! i]"

text \<open>
  One iteration of the loop of \<open>Algo::shuffle\<close>, for the loop variable \<open>i\<close>:
  \<open>std::swap(buf[i], buf[prng.rand(size - i) + i])\<close>. The arithmetic on \<open>size\<close> and \<open>i\<close>
  is 64-bit unsigned.
\<close>

definition shuffle_step :: "nat \<Rightarrow> nat \<Rightarrow> 'a list \<times> PRNG \<Rightarrow> 'a list \<times> PRNG" where
  "shuffle_step size_buf i st =
     (case st of (buf, prng) \<Rightarrow>
        (case PRNG_rand (of_nat size_buf - of_nat i) prng of
           (r, prng') \<Rightarrow> (swap i (unat (r + of_nat i)) buf, prng')))"

definition shuffle :: "'a list \<Rightarrow> PRNG \<Rightarrow> 'a list \<times> PRNG" where
  "shuffle buf prng = fold (shuffle_step (length buf)) [0 ..< length buf] (buf, prng)"

text \<open>
  The end of one round of \<open>SfenReader::file_read_worker\<close> (learn.cpp), once \<open>sfens\<close>
  holds \<open>SFEN_READ_SIZE\<close> samples: the block is shuffled unless \<open>no_shuffle\<close> is set,
  then cut into \<open>SFEN_READ_SIZE / THREAD_BUFFER_SIZE\<close> buffers of \<open>THREAD_BUFFER_SIZE\<close>
  samples each, buffer \<open>i\<close> copied from position \<open>i * THREAD_BUFFER_SIZE\<close> on.
  \<open>SFEN_READ_SIZE\<close> is a macro of a header that is not part of the sources, so both sizes
  are parameters.
\<close>

definition shuffle_block ::
  "nat \<Rightarrow> nat \<Rightarrow> bool \<Rightarrow> 'a list \<Rightarrow> PRNG \<Rightarrow> 'a list list \<times> PRNG" where
  "shuffle_block SFEN_READ_SIZE THREAD_BUFFER_SIZE no_shuffle sfens prng =
     (case (if \<not> no_shuffle then shuffle sfens prng else (sfens, prng)) of
        (sfens', prng') \<Rightarrow>
          (map (\<lambda>i. take THREAD_BUFFER_SIZE (drop (i * THREAD_BUFFER_SIZE) sfens'))
               [0 ..< SFEN_READ_SIZE div THREAD_BUFFER_SIZE],
           prng'))"

section \<open>SharedInputTrainer (nnue/trainer/trainer\_input\_slice.h)\<close>

datatype Operation =
  Operation_kNone | kSendMessage | kInitialize | kPropagate | kBackPropagate

text \<open>
  \<open>Trainer<FeatureTransformer>\<close> is not part of the sources. Of the underlying trainer
  the model keeps the feature transformer it was created for and the log of the calls
  made to it: the batch size (\<open>batch.size()\<close>, a \<open>size_t\<close>) of each \<open>propagate\<close>, and the gradient
  array and learning rate of each \<open>backpropagate\<close>.
\<close>

record ('ft, 'a) FeatureTransformerTrainer =
  target :: 'ft
  propagate_calls :: "64 word list"
  backpropagate_calls :: "('a list \<times> 'a) list"

definition FT_create :: "'ft \<Rightarrow> ('ft, 'a) FeatureTransformerTrainer" where
  "FT_create ft = \<lparr> target = ft, propagate_calls = [], backpropagate_calls = [] \<rparr>"

definition FT_propagate ::
  "64 word \<Rightarrow> ('ft, 'a) FeatureTransformerTrainer \<Rightarrow> ('ft, 'a) FeatureTransformerTrainer" where
  "FT_propagate batch_len t = t\<lparr> propagate_calls := propagate_calls t @ [batch_len] \<rparr>"


text \<open>
  The fields of \<open>SharedInputTrainer\<close>, named as in the source without the trailing
  underscore (\<open>batch_size\<close> is \<open>batch_size_\<close>, and so on); a parameter of the source
  that would then share a field's name carries the suffix \<open>_arg\<close>. The two counters are
  \<open>std::uint32_t\<close>, and \<open>batch_size_\<close> is an \<open>IndexType\<close>. A gradient entry
  (\<open>LearnFloatType\<close>) is a value of any type with a zero and an addition; nothing is
  assumed of the addition, so it may round and need not be associative.
\<close>

record ('ft, 'a) SharedInputTrainer =
  batch_size :: IndexType
  num_referrers :: "32 word"
  num_calls :: "32 word"
  current_operation :: Operation
  feature_transformer_trainer :: "('ft, 'a) FeatureTransformerTrainer"
  gradients :: "'a list"

text \<open>The constructor.\<close>

definition SharedInputTrainer_new :: "'ft \<Rightarrow> ('ft, 'a) SharedInputTrainer" where
  "SharedInputTrainer_new ft =
     \<lparr> batch_size = 0, num_referrers = 0, num_calls = 0,
       current_operation = Operation_kNone,
       feature_transformer_trainer = FT_create ft,
       gradients = [] \<rparr>"

text \<open>
  The factory function. Its argument \<open>instance\<close> is the function-local
  \<open>static std::shared_ptr<SharedInputTrainer> instance\<close>, \<open>None\<close> while it is null.
  The pointer the source returns is this static pointer itself, so the result is the
  new value of the static: the object every caller shares.
\<close>

definition create ::
  "'ft \<Rightarrow> ('ft, 'a) SharedInputTrainer option \<Rightarrow> ('ft, 'a) SharedInputTrainer option" where
  "create ft instance =
     (let inst = (case instance of None \<Rightarrow> SharedInputTrainer_new ft | Some i \<Rightarrow> i)
      in Some (inst\<lparr> num_referrers := num_referrers inst + 1 \<rparr>))"

text \<open>The calls of one graph construction, in order, starting from any static.\<close>

definition create_all ::
  "'ft list \<Rightarrow> ('ft, 'a) SharedInputTrainer option \<Rightarrow> ('ft, 'a) SharedInputTrainer option" where
  "create_all fts instance = fold create fts instance"

text \<open>The \<open>SharedInputTrainer\<close> objects that exist, given the static.\<close>

definition instances :: "('ft, 'a) SharedInputTrainer option \<Rightarrow> ('ft, 'a) SharedInputTrainer list" where
  "instances instance = (case instance of None \<Rightarrow> [] | Some i \<Rightarrow> [i])"

datatype TrainerError = AssertionFailed | OutOfBounds

text \<open>
  The end of \<open>send_message\<close>, \<open>initialize\<close> and \<open>propagate\<close>:
  \<open>if (++num_calls_ == num_referrers_) { num_calls_ = 0; current_operation_ = kNone; }\<close>.
\<close>

definition count_call :: "('ft, 'a) SharedInputTrainer \<Rightarrow> ('ft, 'a) SharedInputTrainer" where
  "count_call t =
     (if num_calls t + 1 = num_referrers t
      then t\<lparr> num_calls := 0, current_operation := Operation_kNone \<rparr>
      else t\<lparr> num_calls := num_calls t + 1 \<rparr>)"

text \<open>
  \<open>propagate\<close>, for a batch of \<open>batch_len\<close> examples (\<open>batch.size()\<close>, a \<open>size_t\<close>);
  \<open>kInputDimensions\<close> is \<open>FeatureTransformer::kOutputDimensions\<close>, an \<open>IndexType\<close>
  constant of a header outside the sources. The size test and the \<open>resize\<close> multiply in
  \<open>size_t\<close>; \<open>resize\<close> keeps the old entries and value-initialises the new ones;
  \<open>static_cast<IndexType>\<close> keeps the low 32 bits. A failed \<open>assert\<close> is the error
  \<open>AssertionFailed\<close>.
\<close>

definition propagate ::
  "IndexType \<Rightarrow> 64 word \<Rightarrow> ('ft, 'a::zero) SharedInputTrainer
     \<Rightarrow> TrainerError + ('ft, 'a) SharedInputTrainer" where
  "propagate kInputDimensions batch_len t =
     (let wanted = unat ((ucast kInputDimensions :: 64 word) * batch_len);
          t1 = (if length (gradients t) < wanted
                then t\<lparr> gradients := gradients t @
                          replicate (wanted - length (gradients t)) 0 \<rparr>
                else t);
          t2 = t1\<lparr> batch_size := ucast batch_len \<rparr>;
          t3 = (if num_calls t2 = 0
                then t2\<lparr> current_operation := kPropagate,
                         feature_transformer_trainer :=
                           FT_propagate batch_len (feature_transformer_trainer t2) \<rparr>
                else t2)
      in if current_operation t3 \<noteq> kPropagate then Inl AssertionFailed
         else Inr (count_call t3))"

text \<open>
  The position \<open>batch_offset + i\<close> with \<open>batch_offset = kInputDimensions * b\<close>, both
  computed in \<open>IndexType\<close>, so modulo \<open>2^32\<close>. The loop variables \<open>b\<close> and \<open>i\<close> stay
  below their \<open>IndexType\<close> bounds.
\<close>

definition gradient_index :: "IndexType \<Rightarrow> nat \<Rightarrow> nat \<Rightarrow> nat" where
  "gradient_index kInputDimensions b i = unat (kInputDimensions * of_nat b + of_nat i)"






text \<open>
  The element-wise sum of the referrers' arrays over the first \<open>n\<close> entries, with the
  source's addition in the source's order. \<open>accumulated\<close> starts every entry from zero
  and adds the arrays in the order of the calls, from the left. The sum of a single
  array is that array.
\<close>

definition accumulated :: "nat \<Rightarrow> 'a::{zero,plus} list list \<Rightarrow> 'a list" where
  "accumulated n gs = map (\<lambda>j. foldl (+) 0 (map (\<lambda>g. g ! j) gs)) [0 ..< n]"

definition elementwise_sum :: "nat \<Rightarrow> 'a::{zero,plus} list list \<Rightarrow> 'a list" where
  "elementwise_sum n gs = (if length gs = 1 then take n (hd gs) else accumulated n gs)"

section \<open>Newbob scheduling in LearnerThink::save (learn/learn.cpp)\<close>

text \<open>
  The argument of \<open>Eval::NNUE::save_eval\<close>: the empty name, \<open>"final"\<close>, or the decimal
  rendering of \<open>dir_number\<close>. \<open>best_nn_directory\<close> is \<open>Path::combine\<close> of the constant
  option \<open>EvalSaveDir\<close> and such a name; the model keeps the name.
\<close>

datatype SaveDir = Dir_empty | Dir_final | Dir_numbered int | Dir_original

text \<open>
  The members of \<open>LearnerThink\<close> that \<open>save\<close> reads and writes, the global
  \<open>global_learning_rate\<close>, the counter \<open>sr.total_done\<close>, the two function-local statics
  of \<open>save\<close> (\<open>dir_number\<close>, and \<open>trials\<close>, which is \<open>None\<close> until the declaration
  \<open>static int trials = newbob_num_trials\<close> runs for the first time), the log of the
  \<open>save_eval\<close> calls, and the two stop flags of \<open>thread_worker\<close>. A \<open>double\<close> is a real
  number here: exact arithmetic, no NaN. An \<open>int\<close> is an integer without overflow.
\<close>

record LearnerThink =
  save_only_once :: bool
  newbob_decay :: real
  newbob_num_trials :: int
  auto_lr_drop :: "64 word"
  last_lr_drop :: "64 word"
  best_loss :: real
  latest_loss_sum :: real
  latest_loss_count :: "64 word"
  best_nn_directory :: SaveDir
  total_done :: "64 word"
  global_learning_rate :: real
  dir_number :: int
  trials :: "int option"
  save_eval_calls :: "SaveDir list"
  stop_flag :: bool
  sr_stop_flag :: bool

text \<open>The three branches on the new loss inside the newbob block of \<open>save\<close>.\<close>

definition newbob_branches :: "bool \<Rightarrow> SaveDir \<Rightarrow> real \<Rightarrow> int \<Rightarrow> LearnerThink \<Rightarrow> LearnerThink" where
  "newbob_branches is_final dir_name latest_loss trials0 s =
     (if auto_lr_drop s \<noteq> 0
      then
        let s' = s\<lparr> best_loss := latest_loss, best_nn_directory := dir_name,
                     trials := Some (newbob_num_trials s) \<rparr>
        in if last_lr_drop s' + auto_lr_drop s' \<le> total_done s'
           then s'\<lparr> last_lr_drop := total_done s',
                     global_learning_rate := global_learning_rate s' * newbob_decay s' \<rparr>
           else s'
      else if latest_loss < best_loss s
      then s\<lparr> best_loss := latest_loss, best_nn_directory := dir_name,
                trials := Some (newbob_num_trials s) \<rparr>
      else
        let s' = s\<lparr> best_nn_directory := dir_name, trials := Some (trials0 - 1) \<rparr>
        in if trials0 - 1 > 0 \<and> \<not> is_final
           then s'\<lparr> global_learning_rate := global_learning_rate s' * newbob_decay s' \<rparr>
           else s')"

text \<open>\<open>save\<close>: the returned flag is the function's result ("converged").\<close>

definition save :: "bool \<Rightarrow> LearnerThink \<Rightarrow> bool \<times> LearnerThink" where
  "save is_final s =
     (if save_only_once s
      then (False, s\<lparr> save_eval_calls := save_eval_calls s @ [Dir_empty] \<rparr>)
      else if is_final
      then (True, s\<lparr> save_eval_calls := save_eval_calls s @ [Dir_final] \<rparr>)
      else
        let dir_name = Dir_numbered (dir_number s);
            s1 = s\<lparr> dir_number := dir_number s + 1,
                     save_eval_calls := save_eval_calls s @ [dir_name] \<rparr>
        in if newbob_decay s1 \<noteq> 1 \<and> latest_loss_count s1 > 0
           then
             let trials0 = (case trials s1 of None \<Rightarrow> newbob_num_trials s1 | Some n \<Rightarrow> n);
                 latest_loss = latest_loss_sum s1 / real (unat (latest_loss_count s1));
                 s2 = s1\<lparr> latest_loss_sum := 0, latest_loss_count := 0,
                           trials := Some trials0 \<rparr>;
                 s3 = newbob_branches is_final dir_name latest_loss trials0 s2
             in if trials s3 = Some 0 then (True, s3) else (False, s3)
           else (False, s1))"

text \<open>
  The lines of \<open>LearnerThink::thread_worker\<close> around the call, run by thread 0 when a
  checkpoint is due: \<open>const bool converged = save(); if (converged) { stop_flag = true;
  sr.stop_flag = true; break; }\<close>. Every learner thread leaves its loop once it reads
  a set \<open>stop_flag\<close>.
\<close>

definition save_checkpoint :: "LearnerThink \<Rightarrow> bool \<times> LearnerThink" where
  "save_checkpoint s =
     (case save False s of
        (converged, s') \<Rightarrow>
          if converged then (True, s'\<lparr> stop_flag := True, sr_stop_flag := True \<rparr>)
          else (False, s'))"

section \<open>Game adjudication in the sample generator (gensfen.cpp)\<close>

text \<open>
  What \<open>get_current_game_result\<close> asks of the position, whose class is not part of the
  sources: whether \<open>pos.is_game_end(v)\<close> holds and the value it then stores in \<open>v\<close>,
  whether \<open>rootMoves\<close> is empty, whether the side to move is in check, the variant's
  checkmate and stalemate values, and \<open>hasInsufficientMaterial\<close> for each colour.
  A \<open>Value\<close> is an integer.
\<close>

record GamePosition =
  is_game_end :: bool
  game_end_value :: int
  rootMoves_empty :: bool
  checkers :: bool
  checkmate_value :: int
  stalemate_value :: int
  hasInsufficientMaterial :: "Color \<Rightarrow> bool"

text \<open>
  The settings of the generator that adjudication reads. \<open>VALUE_KNOWN_WIN\<close> is a
  constant of \<open>types.h\<close>, outside the sources, so it is a field here.
\<close>

record GenSfenConfig =
  write_maxply :: int
  detect_draw_by_consecutive_low_score :: bool
  detect_draw_by_insufficient_mating_material :: bool
  eval_limit :: int
  VALUE_KNOWN_WIN :: int

text \<open>
  \<open>VALUE_DRAW\<close> is declared in \<open>types.h\<close>; the draw value is zero, as the comment of
  \<open>commit_psv\<close> has it ("Pass 0 for a draw").
\<close>

definition VALUE_DRAW :: int where
  "VALUE_DRAW = 0"

definition adj_draw_ply :: int where
  "adj_draw_ply = 80"

definition adj_draw_cnt :: int where
  "adj_draw_cnt = 8"

definition adj_draw_score :: int where
  "adj_draw_score = 0"

definition sign :: "int \<Rightarrow> int" where
  "sign v = (if v > 0 then 1 else if v < 0 then - 1 else 0)"

text \<open>
  The loop over \<open>move_hist_scores\<close> from \<open>rbegin\<close> to \<open>rend\<close>: the first argument is the
  rest of the scores, last first, the second is \<open>num_cons_plies_within_draw_score\<close>;
  the result is \<open>is_adj_draw\<close>.
\<close>

fun adj_draw_loop :: "int list \<Rightarrow> int \<Rightarrow> bool" where
  "adj_draw_loop [] num_cons = False"
| "adj_draw_loop (x # xs) num_cons =
     (if \<bar>x\<bar> \<le> adj_draw_score
      then (if num_cons + 1 \<ge> adj_draw_cnt then True else adj_draw_loop xs (num_cons + 1))
      else False)"

definition consecutive_low_score_draw :: "GenSfenConfig \<Rightarrow> int list \<Rightarrow> bool" where
  "consecutive_low_score_draw cfg move_hist_scores =
     (detect_draw_by_consecutive_low_score cfg
      \<and> int (length move_hist_scores) \<ge> adj_draw_ply
      \<and> adj_draw_loop (rev move_hist_scores) 0)"

definition insufficient_material_draw :: "GenSfenConfig \<Rightarrow> GamePosition \<Rightarrow> bool" where
  "insufficient_material_draw cfg pos =
     (detect_draw_by_insufficient_mating_material cfg
      \<and> hasInsufficientMaterial pos WHITE \<and> hasInsufficientMaterial pos BLACK)"

text \<open>\<open>get_current_game_result\<close>: \<open>None\<close> is \<open>nullopt\<close>.\<close>

definition get_current_game_result :: "GenSfenConfig \<Rightarrow> GamePosition \<Rightarrow> int list \<Rightarrow> int option" where
  "get_current_game_result cfg pos move_hist_scores =
     (let ply = int (length move_hist_scores)
      in if ply \<ge> write_maxply cfg then Some (sign VALUE_DRAW)
         else if is_game_end pos then Some (sign (game_end_value pos))
         else if rootMoves_empty pos
         then (if checkers pos then Some (sign (checkmate_value pos))
               else Some (sign (stalemate_value pos)))
         else if consecutive_low_score_draw cfg move_hist_scores then Some 0
         else if insufficient_material_draw cfg pos then Some 0
         else None)"

text \<open>
  The adjudication of one ply in \<open>MultiThinkGenSfen::thread_worker\<close>, after the search
  returned \<open>search_value\<close>: the game result first, the resign rule after it.
  \<open>should_resign\<close> is drawn once per game (\<open>prng.rand(10) > 1\<close>). The result is the value
  handed to \<open>flush_psv\<close> when the game ends at this ply, and the new \<open>resign_counter\<close>.
\<close>

definition adjudicate_ply ::
  "GenSfenConfig \<Rightarrow> GamePosition \<Rightarrow> int list \<Rightarrow> int \<Rightarrow> bool \<Rightarrow> int \<Rightarrow> int option \<times> int" where
  "adjudicate_ply cfg pos move_hist_scores search_value should_resign resign_counter =
     (case get_current_game_result cfg pos move_hist_scores of
        Some result \<Rightarrow> (Some result, resign_counter)
      | None \<Rightarrow>
          if \<bar>search_value\<bar> \<ge> eval_limit cfg
          then
            if (should_resign \<and> resign_counter + 1 \<ge> 4)
               \<or> \<bar>search_value\<bar> \<ge> VALUE_KNOWN_WIN cfg
            then (Some (if search_value \<ge> eval_limit cfg then 1 else - 1), resign_counter + 1)
            else (None, resign_counter + 1)
          else (None, 0))"

section \<open>Result backfill in commit\_psv (gensfen.cpp)\<close>

text \<open>
  A packed sample. \<open>packed_sfen.h\<close> is not part of the sources; the fields are the ones
  \<open>thread_worker\<close> and \<open>commit_psv\<close> assign. \<open>game_result\<close> takes an \<open>int8_t\<close>.
\<close>

record ('sfen, 'mv) PackedSfenValue =
  sfen :: 'sfen
  score :: int
  gamePly :: int
  move :: 'mv
  game_result :: "8 word"

text \<open>
  \<open>get_next_loop_count\<close> and \<open>LOOP_COUNT_FINISHED\<close> belong to \<open>MultiThink\<close>, whose header
  is not part of the sources; \<open>commit_psv\<close> takes them as parameters \<open>next_count\<close> (on a
  counter state \<open>'c\<close>) and \<open>FINISHED\<close>.

  The first loop of \<open>commit_psv\<close>, over the samples from \<open>rbegin\<close> to \<open>rend\<close>: the list
  argument is the rest of the samples, last first. The result is the samples with
  their results assigned (same order), \<open>num_sfens_to_commit\<close>, \<open>quit\<close> and the counter
  state.
\<close>

fun assign_results ::
  "('c \<Rightarrow> 64 word \<times> 'c) \<Rightarrow> 64 word \<Rightarrow> 8 word \<Rightarrow> 'c \<Rightarrow> ('sfen, 'mv) PackedSfenValue list
     \<Rightarrow> ('sfen, 'mv) PackedSfenValue list \<times> nat \<times> bool \<times> 'c" where
  "assign_results next_count FINISHED is_win c [] = ([], 0, False, c)"
| "assign_results next_count FINISHED is_win c (p # ps) =
     (let p' = p\<lparr> game_result := - is_win \<rparr>
      in case next_count c of
           (now_loop_count, c') \<Rightarrow>
             if now_loop_count = FINISHED then (p' # ps, 0, True, c')
             else (case assign_results next_count FINISHED (- is_win) c' ps of
                     (ps', n, quit, c'') \<Rightarrow> (p' # ps', Suc n, quit, c'')))"

text \<open>
  \<open>commit_psv\<close>. The first argument is the static
  \<open>write_out_draw_game_in_training_data_generation\<close>. The result is the return value
  \<open>quit\<close>, the buffer \<open>sfens\<close> as the call leaves it, the samples handed to
  \<open>sfen_writer.write\<close> in the order of the calls, and the counter state.
\<close>

definition commit_psv ::
  "bool \<Rightarrow> ('c \<Rightarrow> 64 word \<times> 'c) \<Rightarrow> 64 word \<Rightarrow> ('sfen, 'mv) PackedSfenValue list \<Rightarrow> 8 word \<Rightarrow> 'c
     \<Rightarrow> bool \<times> ('sfen, 'mv) PackedSfenValue list \<times> ('sfen, 'mv) PackedSfenValue list \<times> 'c" where
  "commit_psv write_out_draw next_count FINISHED sfens lastTurnIsWin c =
     (if \<not> write_out_draw \<and> lastTurnIsWin = 0 then (False, sfens, [], c)
      else
        case assign_results next_count FINISHED lastTurnIsWin c (rev sfens) of
          (rs, num_sfens_to_commit, quit, c') \<Rightarrow>
            (quit, rev rs, drop (length rs - num_sfens_to_commit) (rev rs), c'))"

text \<open>
  A counter as \<open>commit_psv\<close> uses it: the state is the pair of the count handed out so
  far and the limit; once the limit is reached the answer is \<open>LOOP_COUNT_FINISHED\<close>,
  the largest 64-bit value.
\<close>

definition LOOP_COUNT_FINISHED :: "64 word" where
  "LOOP_COUNT_FINISHED = - 1"

definition get_next_loop_count :: "64 word \<times> 64 word \<Rightarrow> 64 word \<times> (64 word \<times> 64 word)" where
  "get_next_loop_count c =
     (case c of (loop_count, loop_max) \<Rightarrow>
        if loop_count \<ge> loop_max then (LOOP_COUNT_FINISHED, c)
        else (loop_count, (loop_count + 1, loop_max)))"

text \<open>
  The part of one ply of \<open>thread_worker\<close> that decides whether the position is kept
  (from "Discard stuff before write\_minply is reached" to the label \<open>SKIP_SAVE\<close>):
  the state is the hash table of position keys and the buffer \<open>a_psv\<close>. A ply before
  \<open>write_minply - 1\<close> clears the buffer; a position whose key is in its hash slot is
  skipped; any other is stored in the slot and appended with \<open>gamePly = ply\<close>.
\<close>

definition GENSFEN_HASH_SIZE :: "64 word" where
  "GENSFEN_HASH_SIZE = 64 * 1024 * 1024"

definition save_position ::
  "int \<Rightarrow> int \<Rightarrow> 64 word \<Rightarrow> 'sfen \<Rightarrow> int \<Rightarrow> 'mv
     \<Rightarrow> (64 word \<Rightarrow> 64 word) \<times> ('sfen, 'mv) PackedSfenValue list
     \<Rightarrow> (64 word \<Rightarrow> 64 word) \<times> ('sfen, 'mv) PackedSfenValue list" where
  "save_position write_minply ply key packed search_value pv0 st =
     (case st of (hash, a_psv) \<Rightarrow>
        if ply < write_minply - 1 then (hash, [])
        else
          let hash_index = key AND (GENSFEN_HASH_SIZE - 1);
              old_key = hash hash_index
          in if key = old_key then (hash, a_psv)
             else (hash(hash_index := key),
                   a_psv @ [\<lparr> sfen = packed, score = search_value, gamePly = ply,
                              move = pv0, game_result = 0 \<rparr>]))"

section \<open>Notions used in the statements\<close>

subsection \<open>Layer Sum\<close>

text \<open>
  A stream of parameter words with a log: the words still unread, the layers whose
  read was attempted, in order, and whether the stream's exception mask is set. A
  layer whose parameters are \<open>n\<close> words: a short read empties the stream and fails,
  by an exception when the mask is set and by the flag false when it is not.
\<close>

record WordStream =
  unread :: "nat list"
  attempts :: "nat list"
  exception_mask :: bool

definition counted_read :: "nat \<Rightarrow> nat \<Rightarrow> (WordStream, string) Layer" where
  "counted_read ident n =
     \<lparr> read_parameters = (\<lambda>st.
          if n \<le> length (unread st)
          then (Inr True, st\<lparr> unread := drop n (unread st), attempts := attempts st @ [ident] \<rparr>)
          else if exception_mask st
          then (Inl ''ios_base::failure'',
                st\<lparr> unread := [], attempts := attempts st @ [ident] \<rparr>)
          else (Inr False, st\<lparr> unread := [], attempts := attempts st @ [ident] \<rparr>)) \<rparr>"

definition three_summands :: "(WordStream, string) Sum" where
  "three_summands = SumN (counted_read 1 2) (SumN (counted_read 2 3) (Sum1 (counted_read 3 1)))"

subsection \<open>SharedInputTrainer\<close>

text \<open>The feature transformer an instance was created for.\<close>

definition underlying :: "('ft, 'a) SharedInputTrainer \<Rightarrow> 'ft" where
  "underlying t = target (feature_transformer_trainer t)"

text \<open>
  The invariant of the data model, in the specification's words: for every feature
  transformer passed to \<open>create\<close> exactly one instance exists, and its referrer count is
  the number of \<open>create\<close> calls made for that feature transformer.
\<close>

definition one_instance_per_transformer ::
  "'ft list \<Rightarrow> ('ft, 'a) SharedInputTrainer option \<Rightarrow> bool" where
  "one_instance_per_transformer fts instance =
     (\<forall>ft \<in> set fts.
        length (filter (\<lambda>i. underlying i = ft) (instances instance)) = 1
        \<and> (\<forall>i \<in> set (instances instance).
              underlying i = ft \<longrightarrow> num_referrers i = of_nat (count_list fts ft)))"


text \<open>
  A trainer with three referrers after the forward pass of a batch of one example,
  with \<open>kInputDimensions = 2\<close> and a buffer that still holds old entries.
\<close>

definition example_trainer :: "(nat, int) SharedInputTrainer" where
  "example_trainer =
     \<lparr> batch_size = 1, num_referrers = 3, num_calls = 0,
       current_operation = Operation_kNone,
       feature_transformer_trainer = FT_propagate 1 (FT_create 0),
       gradients = [7, 7, 7] \<rparr>"

subsection \<open>Newbob scheduling\<close>

text \<open>
  The trial counter as \<open>save\<close> reads it (the static's initial value before its first
  use), and the loss of the samples since the last checkpoint.
\<close>

definition current_trials :: "LearnerThink \<Rightarrow> int" where
  "current_trials s = (case trials s of None \<Rightarrow> newbob_num_trials s | Some n \<Rightarrow> n)"

definition latest_loss :: "LearnerThink \<Rightarrow> real" where
  "latest_loss s = latest_loss_sum s / real (unat (latest_loss_count s))"

text \<open>
  A learner with newbob decay one half, one trial left, and a best loss of one half
  against a new loss of one.
\<close>

definition example_learner :: LearnerThink where
  "example_learner = \<lparr> save_only_once = False, newbob_decay = 1/2, newbob_num_trials = 2,
          auto_lr_drop = 0, last_lr_drop = 0, best_loss = 1/2,
          latest_loss_sum = 10, latest_loss_count = 10, best_nn_directory = Dir_original,
          total_done = 1000, global_learning_rate = 1, dir_number = 3, trials = Some 1,
          save_eval_calls = [], stop_flag = False, sr_stop_flag = False \<rparr>"

subsection \<open>Game adjudication\<close>

text \<open>
  The resign rule of \<open>thread_worker\<close> in the specification's words: the absolute score
  is at or above the threshold, the game may resign, and this is at least the fourth
  such ply in a row (the counter holds the number of such plies before this one).
\<close>

definition resign_rule :: "GenSfenConfig \<Rightarrow> int \<Rightarrow> bool \<Rightarrow> int \<Rightarrow> bool" where
  "resign_rule cfg search_value should_resign resign_counter =
     (\<bar>search_value\<bar> \<ge> eval_limit cfg \<and> should_resign \<and> resign_counter + 1 \<ge> 4)"

text \<open>
  The resign counter of a game that is still going on after the plies with the search
  values \<open>vs\<close>: \<open>thread_worker\<close> starts it at zero, adds one at a ply whose absolute
  score reaches the threshold and sets it back to zero at any other ply.
\<close>

definition resign_counter_after :: "GenSfenConfig \<Rightarrow> int list \<Rightarrow> int" where
  "resign_counter_after cfg vs =
     fold (\<lambda>v resign_counter. if \<bar>v\<bar> \<ge> eval_limit cfg then resign_counter + 1 else 0) vs 0"

text \<open>
  The checks in the words of the claim as amended. Check (3): the game has reached
  ply 80 and the scores of the last 8 plies are all zero.
\<close>

definition last_8_scores_zero :: "int list \<Rightarrow> bool" where
  "last_8_scores_zero scores =
     (8 \<le> length scores \<and> (\<forall>x \<in> set (take 8 (rev scores)). x = 0))"

text \<open>
  The outcome of the checks (1) to (4) in their order, with the game end reported by
  the position between the maximum ply and the missing legal moves.
\<close>

definition game_result_in_order :: "GenSfenConfig \<Rightarrow> GamePosition \<Rightarrow> int list \<Rightarrow> int option" where
  "game_result_in_order cfg pos scores =
     (if int (length scores) \<ge> write_maxply cfg then Some 0
      else if is_game_end pos then Some (sign (game_end_value pos))
      else if rootMoves_empty pos
      then Some (sign (if checkers pos then checkmate_value pos else stalemate_value pos))
      else if detect_draw_by_consecutive_low_score cfg \<and> 80 \<le> length scores
              \<and> last_8_scores_zero scores
      then Some 0
      else if detect_draw_by_insufficient_mating_material cfg
              \<and> hasInsufficientMaterial pos WHITE \<and> hasInsufficientMaterial pos BLACK
      then Some 0
      else None)"

text \<open>
  Check (5), reached only when the checks before it gave nothing: a decisive result
  when the absolute score is at or above the threshold and either this is the fourth
  such ply in a row in a game that may resign, or the absolute score has reached
  \<open>VALUE_KNOWN_WIN\<close>; no result otherwise.
\<close>

definition adjudication_in_order ::
  "GenSfenConfig \<Rightarrow> GamePosition \<Rightarrow> int list \<Rightarrow> int \<Rightarrow> bool \<Rightarrow> int \<Rightarrow> int option" where
  "adjudication_in_order cfg pos scores search_value should_resign resign_counter =
     (case game_result_in_order cfg pos scores of
        Some result \<Rightarrow> Some result
      | None \<Rightarrow>
          if \<bar>search_value\<bar> \<ge> eval_limit cfg
             \<and> ((should_resign \<and> resign_counter + 1 \<ge> 4)
                  \<or> \<bar>search_value\<bar> \<ge> VALUE_KNOWN_WIN cfg)
          then Some (if search_value \<ge> eval_limit cfg then 1 else - 1)
          else None)"

text \<open>
  The default settings of \<open>gen_sfen\<close>, and a position with legal moves and enough
  material in which the rules of the game report a draw (a repetition, say).
\<close>

definition example_config :: GenSfenConfig where
  "example_config =
     \<lparr> write_maxply = 400, detect_draw_by_consecutive_low_score = True,
       detect_draw_by_insufficient_mating_material = True,
       eval_limit = 3000, VALUE_KNOWN_WIN = 10000 \<rparr>"

definition example_position :: GamePosition where
  "example_position =
     \<lparr> is_game_end = True, game_end_value = 0, rootMoves_empty = False, checkers = False,
       checkmate_value = - 32000, stalemate_value = 0,
       hasInsufficientMaterial = (\<lambda>c. False) \<rparr>"

subsection \<open>Result backfill\<close>

text \<open>
  The buffer of a game in which the position of ply 34 repeats the position of ply 30:
  \<open>save_position\<close> is run for the plies 30 to 35 with the keys 5, 6, 7, 8, 5, 9, from an
  empty hash table and an empty buffer, with \<open>write_minply = 16\<close>.
\<close>

definition example_game_buffer :: "(unit, nat) PackedSfenValue list" where
  "example_game_buffer =
     snd (save_position 16 35 9 () 0 0
       (save_position 16 34 5 () 0 0
         (save_position 16 33 8 () 0 0
           (save_position 16 32 7 () 0 0
             (save_position 16 31 6 () 0 0
               (save_position 16 30 5 () 0 0 (\<lambda>i. 0, [])))))))"


section \<open>Feature CastlingRight: the black perspective\<close>

lemma three_is_mask: "(3::32 word) = mask 2"
  by (simp add: mask_eq_exp_minus_1)

lemma invert_perspective_zero: "invert_perspective castling_rights = 0"
  unfolding invert_perspective_def three_is_mask
  by (auto simp add: bit_eq_iff bit_simps)

lemma fold_const_step: "fold (\<lambda>i acc. acc) xs a = a"
  by (induction xs) auto

lemma upt4: "[0..<4] = [0, 1, 2, 3]"
  by (simp add: upt_rec)

text \<open>
  Claim C9. For every position, \<open>CastlingRight::append_active_indices\<close> called with
  perspective \<open>BLACK\<close> appends no index, and \<open>CastlingRight::append_changed_indices\<close>
  called with perspective \<open>BLACK\<close> removes no index (and adds none), because the
  inversion expression \<open>((castling_rights & 3) << 2) & ((castling_rights >> 2) & 3)\<close>
  is zero for every value of \<open>castling_rights\<close>: its two operands have no bit in common.
\<close>

theorem castling_right_black_appends_nothing:
  "invert_perspective castling_rights = 0
   \<and> CastlingRight_append_active_indices raw_kMaxActiveDimensions pos BLACK active = active
   \<and> CastlingRight_append_changed_indices pos BLACK removed added = (removed, added)"
  by (simp add: CastlingRight_append_active_indices_def CastlingRight_append_changed_indices_def
      relative_rights_def invert_perspective_zero fold_const_step Let_def)

text \<open>
  With all four rights set, black gets no index where white gets all four; with all
  four rights lost by the last move, black gets no removal where white gets four.
\<close>

theorem castling_right_black_witness:
  "CastlingRight_append_active_indices 4
      \<lparr> castlingRights = 15, previous_castlingRights = 15 \<rparr> BLACK [] = []
   \<and> CastlingRight_append_active_indices 4
      \<lparr> castlingRights = 15, previous_castlingRights = 15 \<rparr> WHITE [] = [0, 1, 2, 3]
   \<and> CastlingRight_append_changed_indices
      \<lparr> castlingRights = 0, previous_castlingRights = 15 \<rparr> BLACK [] [] = ([], [])
   \<and> CastlingRight_append_changed_indices
      \<lparr> castlingRights = 0, previous_castlingRights = 15 \<rparr> WHITE [] [] = ([0, 1, 2, 3], [])"
  using castling_right_black_appends_nothing
    [of 15 4 "\<lparr> castlingRights = 15, previous_castlingRights = 15 \<rparr>" "[]" "[]" "[]"]
    castling_right_black_appends_nothing
    [of 15 4 "\<lparr> castlingRights = 0, previous_castlingRights = 15 \<rparr>" "[]" "[]" "[]"]
  by (simp add: CastlingRight_append_active_indices_def CastlingRight_append_changed_indices_def
      relative_rights_def CastlingRight_kDimensions_def CastlingRight_kMaxActiveDimensions_def upt4)

section \<open>Feature sets: dimensions\<close>

lemma sum_list_unat_mod:
  "unat (sum_list (ws :: 32 word list)) = sum_list (map unat ws) mod 2 ^ 32"
  by (induction ws) (simp_all add: unat_word_ariths mod_add_right_eq)

text \<open>
  Claim C5. For every composed feature set, the combined \<open>kDimensions\<close> is the sum of
  the members' \<open>kDimensions\<close>, and the combined \<open>kMaxActiveDimensions\<close> is the sum of
  the members' \<open>kMaxActiveDimensions\<close>. The sums are sums of \<open>IndexType\<close>, that is,
  taken modulo \<open>2^32\<close>, which the last two conjuncts spell out on natural numbers.
\<close>

theorem feature_set_dimensions_additive:
  "FeatureSet_kDimensions fs = sum_list (map kDimensions (feature_types fs))
   \<and> FeatureSet_kMaxActiveDimensions fs = sum_list (map kMaxActiveDimensions (feature_types fs))
   \<and> unat (FeatureSet_kDimensions fs)
       = sum_list (map (\<lambda>f. unat (kDimensions f)) (feature_types fs)) mod 2 ^ 32
   \<and> unat (FeatureSet_kMaxActiveDimensions fs)
       = sum_list (map (\<lambda>f. unat (kMaxActiveDimensions f)) (feature_types fs)) mod 2 ^ 32"
proof -
  have d: "FeatureSet_kDimensions fs = sum_list (map kDimensions (feature_types fs))"
    by (induction fs) simp_all
  have m: "FeatureSet_kMaxActiveDimensions fs
             = sum_list (map kMaxActiveDimensions (feature_types fs))"
    by (induction fs) simp_all
  show ?thesis
    using sum_list_unat_mod [of "map kDimensions (feature_types fs)"]
      sum_list_unat_mod [of "map kMaxActiveDimensions (feature_types fs)"]
    by (simp add: d m comp_def)
qed

theorem feature_set_dimensions_witness:
  "FeatureSet_kDimensions (FeatureSetN (CastlingRight 8) (FeatureSet1 (CastlingRight 8))) = 8
   \<and> FeatureSet_kMaxActiveDimensions
        (FeatureSetN (CastlingRight 8) (FeatureSet1 (CastlingRight 8))) = 8"
  using feature_set_dimensions_additive
    [of "FeatureSetN (CastlingRight 8) (FeatureSet1 (CastlingRight 8))"]
  by (simp add: CastlingRight_def CastlingRight_kDimensions_def
      CastlingRight_kMaxActiveDimensions_def)

section \<open>Feature sets: changed indices and the empty delta\<close>

text \<open>
  Claim C6, as amended. For every position and every perspective, if the trigger is one
  of the three king triggers (\<open>kFriendKingMoved\<close>, \<open>kEnemyKingMoved\<close>, \<open>kAnyKingMoved\<close>)
  and the delta list of the last move is empty (\<open>dirty_num = 0\<close>), then
  \<open>append_changed_indices\<close> skips both perspectives: it leaves \<open>removed\<close>, \<open>added\<close> and
  \<open>reset\<close> as they were.
\<close>

theorem append_changed_indices_skips_on_empty_delta:
  "trigger = kFriendKingMoved \<or> trigger = kEnemyKingMoved \<or> trigger = kAnyKingMoved
   \<Longrightarrow> dirty_num dp = 0
   \<Longrightarrow> FeatureSetBase_append_changed_indices T fs pos dp trigger (removed, added, reset)
       = (removed, added, reset)"
  by (auto simp add: FeatureSetBase_append_changed_indices_def changed_indices_body_def)

theorem append_changed_indices_skips_witness:
  "dirty_num \<lparr> dirty_num = 0, piece = (\<lambda>i. (WHITE, 0 :: nat)) \<rparr> = 0
   \<and> FeatureSetBase_append_changed_indices
        \<lparr> make_piece = Pair, type_of = snd, KING = 0 \<rparr>
        (FeatureSet1 (CastlingRight 4))
        \<lparr> castlingRights = 0, previous_castlingRights = 15 \<rparr>
        \<lparr> dirty_num = 0, piece = (\<lambda>i. (WHITE, 0 :: nat)) \<rparr>
        kFriendKingMoved (\<lambda>c. [], \<lambda>c. [], \<lambda>c. False)
      = (\<lambda>c. [], \<lambda>c. [], \<lambda>c. False)"
  using append_changed_indices_skips_on_empty_delta
    [of kFriendKingMoved "\<lparr> dirty_num = 0, piece = (\<lambda>i. (WHITE, 0 :: nat)) \<rparr>"
        "\<lparr> make_piece = Pair, type_of = snd, KING = 0 \<rparr>"
        "FeatureSet1 (CastlingRight 4)"
        "\<lparr> castlingRights = 0, previous_castlingRights = 15 \<rparr>"
        "\<lambda>c. []" "\<lambda>c. []" "\<lambda>c. False"]
  by simp

text \<open>
  Claim C6 as stated, for every trigger, fails: with an empty delta list and the trigger
  \<open>kAnyPieceMoved\<close> the reset flag of the white perspective, clear before the call, is
  set by it; and with the trigger \<open>kNone\<close> the feature set made of \<open>CastlingRight\<close>
  appends four indices to white's \<open>removed\<close> list.
\<close>

theorem append_changed_indices_every_trigger_counterexample:
  "dirty_num \<lparr> dirty_num = 0, piece = (\<lambda>i. (WHITE, 0 :: nat)) \<rparr> = 0
   \<and> snd (snd (FeatureSetBase_append_changed_indices
        \<lparr> make_piece = Pair, type_of = snd, KING = 0 \<rparr>
        (FeatureSet1 (CastlingRight 4))
        \<lparr> castlingRights = 0, previous_castlingRights = 15 \<rparr>
        \<lparr> dirty_num = 0, piece = (\<lambda>i. (WHITE, 0 :: nat)) \<rparr>
        kAnyPieceMoved (\<lambda>c. [], \<lambda>c. [], \<lambda>c. False))) WHITE = True
   \<and> fst (FeatureSetBase_append_changed_indices
        \<lparr> make_piece = Pair, type_of = snd, KING = 0 \<rparr>
        (FeatureSet1 (CastlingRight 4))
        \<lparr> castlingRights = 0, previous_castlingRights = 15 \<rparr>
        \<lparr> dirty_num = 0, piece = (\<lambda>i. (WHITE, 0 :: nat)) \<rparr>
        kNone (\<lambda>c. [], \<lambda>c. [], \<lambda>c. False)) WHITE = [0, 1, 2, 3]"
  by (simp add: FeatureSetBase_append_changed_indices_def changed_indices_body_def
      after_switch_def CastlingRight_def CastlingRight_append_changed_indices_def
      relative_rights_def invert_perspective_zero CastlingRight_kDimensions_def upt4)

section \<open>Layer Sum: reading parameters\<close>

lemma read_until_failure_append:
  "read_until_failure (ls @ ms) stream =
     (case read_until_failure ls stream of
        (outcome, stream') \<Rightarrow>
          if outcome = Inr True then read_until_failure ms stream' else (outcome, stream'))"
  by (induction ls arbitrary: stream) (auto split: prod.splits)

lemma Sum_read_parameters_order:
  "Sum_read_parameters sum_layer stream = read_until_failure (rev (summands sum_layer)) stream"
proof (induction sum_layer arbitrary: stream)
  case (Sum1 l)
  then show ?case by (auto split: prod.splits)
next
  case (SumN l tail)
  obtain out s' where r: "read_until_failure (rev (summands tail)) stream = (out, s')"
    by (cases "read_until_failure (rev (summands tail)) stream")
  show ?case
  proof (cases out)
    case (Inl exc)
    then show ?thesis using SumN r by (simp add: read_until_failure_append)
  next
    case (Inr ok)
    then show ?thesis using SumN r
      by (cases "read_parameters l s'") (auto simp add: read_until_failure_append)
  qed
qed

lemma read_until_failure_first_failure:
  "read_until_failure pre stream = (Inr True, s1) \<Longrightarrow> read_parameters l s1 = (outcome, s2)
   \<Longrightarrow> outcome \<noteq> Inr True
   \<Longrightarrow> read_until_failure (pre @ l # post) stream = (outcome, s2)"
  by (simp add: read_until_failure_append)

lemma read_until_failure_all_ok:
  "fst (read_until_failure ls stream) = Inr True \<Longrightarrow> k < length ls
   \<Longrightarrow> fst (read_parameters (ls ! k) (snd (read_until_failure (take k ls) stream))) = Inr True"
proof (induction ls arbitrary: stream k)
  case Nil
  then show ?case by simp
next
  case (Cons l ls)
  obtain out s' where r: "read_parameters l stream = (out, s')" by (cases "read_parameters l stream")
  from Cons.prems(1) r have ok: "out = Inr True" by (auto split: if_splits)
  show ?case
  proof (cases k)
    case 0
    then show ?thesis using r ok by simp
  next
    case (Suc j)
    then show ?thesis using Cons r ok by simp
  qed
qed

lemma read_until_failure_ok_conv:
  "(\<forall>k < length ls.
      fst (read_parameters (ls ! k) (snd (read_until_failure (take k ls) stream))) = Inr True)
   \<Longrightarrow> fst (read_until_failure ls stream) = Inr True"
proof (induction ls arbitrary: stream)
  case Nil
  then show ?case by simp
next
  case (Cons l ls)
  obtain out s' where r: "read_parameters l stream = (out, s')" by (cases "read_parameters l stream")
  from Cons.prems[rule_format, of 0] r have ok: "out = Inr True" by simp
  have "\<forall>k<length ls.
          fst (read_parameters (ls ! k) (snd (read_until_failure (take k ls) s'))) = Inr True"
  proof (intro allI impI)
    fix k assume "k < length ls"
    then show "fst (read_parameters (ls ! k) (snd (read_until_failure (take k ls) s'))) = Inr True"
      using Cons.prems[rule_format, of "Suc k"] r ok by simp
  qed
  from Cons.IH[OF this] show ?case using r ok by simp
qed

text \<open>
  Claim C8, as amended. For every \<open>Sum\<close> layer and every input stream,
  \<open>read_parameters\<close> reads the summands one after the other (the last template
  argument first) and stops at the first read that does not return true: it returns
  true only if the read of every summand returns true, and when the read of a summand
  does not return true after all reads before it did, the result is the outcome of
  that read together with the state it left, so no later summand is read. A summand
  that returns false makes the whole read return false; an exception thrown by a
  summand's read is not caught and reaches the caller as that exception.
\<close>

theorem sum_read_parameters_stops_at_first_failure:
  "Sum_read_parameters sum_layer stream = read_until_failure (rev (summands sum_layer)) stream
   \<and> (fst (Sum_read_parameters sum_layer stream) = Inr True \<longleftrightarrow>
        (\<forall>k < length (summands sum_layer).
           fst (read_parameters (rev (summands sum_layer) ! k)
                  (snd (read_until_failure (take k (rev (summands sum_layer))) stream)))
             = Inr True))
   \<and> (\<forall>pre l post s1 outcome s2.
         rev (summands sum_layer) = pre @ l # post
         \<and> read_until_failure pre stream = (Inr True, s1)
         \<and> read_parameters l s1 = (outcome, s2)
         \<and> outcome \<noteq> Inr True
         \<longrightarrow> Sum_read_parameters sum_layer stream = (outcome, s2))"
  using read_until_failure_all_ok [of "rev (summands sum_layer)" stream]
    read_until_failure_ok_conv [of "rev (summands sum_layer)" stream]
  by (auto simp add: Sum_read_parameters_order read_until_failure_first_failure)

text \<open>
  Three summands of 2, 3 and 1 words. On a stream of three words whose exception mask
  is not set the third summand is read, the second returns false, the first is never
  attempted, and the result is false; six words suffice, with or without the mask.
\<close>

theorem sum_read_parameters_witness:
  "Sum_read_parameters three_summands
     \<lparr> unread = [7, 7, 7], attempts = [], exception_mask = False \<rparr>
     = (Inr False, \<lparr> unread = [], attempts = [3, 2], exception_mask = False \<rparr>)
   \<and> Sum_read_parameters three_summands
     \<lparr> unread = [7, 7, 7, 7, 7, 7], attempts = [], exception_mask = False \<rparr>
     = (Inr True, \<lparr> unread = [], attempts = [3, 2, 1], exception_mask = False \<rparr>)
   \<and> Sum_read_parameters three_summands
     \<lparr> unread = [7, 7, 7, 7, 7, 7], attempts = [], exception_mask = True \<rparr>
     = (Inr True, \<lparr> unread = [], attempts = [3, 2, 1], exception_mask = True \<rparr>)"
  using sum_read_parameters_stops_at_first_failure
    [of three_summands "\<lparr> unread = [7, 7, 7], attempts = [], exception_mask = False \<rparr>"]
  by (simp add: three_summands_def counted_read_def)

text \<open>
  Claim C8 as stated promises that a short read is signalled by the return value
  false rather than by an exception. \<open>Sum::read_parameters\<close> has no handler: on the
  same stream of three words with the exception mask set, the read of the second
  summand throws, and the exception is what the caller gets.
\<close>

theorem sum_read_parameters_exception_counterexample:
  "Sum_read_parameters three_summands
     \<lparr> unread = [7, 7, 7], attempts = [], exception_mask = True \<rparr>
     = (Inl ''ios_base::failure'', \<lparr> unread = [], attempts = [3, 2], exception_mask = True \<rparr>)"
  by (simp add: three_summands_def counted_read_def)

section \<open>Algo::shuffle\<close>

lemma mset_swap_list: "i < length buf \<Longrightarrow> j < length buf \<Longrightarrow> mset (swap i j buf) = mset buf"
  unfolding swap_def by (simp add: mset_swap)

lemma length_swap_list: "length (swap i j buf) = length buf"
  by (simp add: swap_def)

lemma unat_of_nat_small: "n < 2 ^ 64 \<Longrightarrow> unat (of_nat n :: 64 word) = n"
  by (simp add: unat_of_nat)

lemma rand_index_in_range:
  assumes "i < n" and "n < 2 ^ 64"
  shows "unat ((r :: 64 word) mod (of_nat n - of_nat i) + of_nat i) < n"
proof -
  define w :: "64 word" where "w = of_nat (n - i)"
  define v :: "64 word" where "v = of_nat i"
  have d: "(of_nat n - of_nat i :: 64 word) = w"
    using assms by (simp add: w_def)
  have "n - i < 2 ^ 64" using assms by simp
  then have u: "unat w = n - i"
    unfolding w_def by (rule unat_of_nat_small)
  have "i < 2 ^ 64" using assms by simp
  then have ui: "unat v = i"
    unfolding v_def by (rule unat_of_nat_small)
  have "unat (r mod w) = unat r mod (n - i)"
    by (simp add: unat_mod u)
  moreover have "unat r mod (n - i) < n - i"
    using assms by simp
  ultimately have s: "unat (r mod w) + unat v < n"
    using ui by simp
  then have "unat (r mod w) + unat v < 2 ^ LENGTH(64)"
    using assms by simp
  then have "unat (r mod w + v) = unat (r mod w) + unat v"
    by (simp only: unat_add_lem)
  with s show ?thesis by (simp add: d v_def)
qed

lemma shuffle_step_keeps:
  assumes "i < n" and "n < 2 ^ 64" and "length buf = n"
  shows "mset (fst (shuffle_step n i (buf, prng))) = mset buf
         \<and> length (fst (shuffle_step n i (buf, prng))) = n"
  using assms rand_index_in_range[OF assms(1,2)]
  by (auto simp add: shuffle_step_def PRNG_rand_def mset_swap_list length_swap_list
      split: prod.splits)

lemma shuffle_fold_keeps:
  assumes "n < 2 ^ 64" and "length buf = n" and "\<forall>i \<in> set is. i < n"
  shows "mset (fst (fold (shuffle_step n) is (buf, prng))) = mset buf
         \<and> length (fst (fold (shuffle_step n) is (buf, prng))) = n"
  using assms
proof (induction "is" arbitrary: buf prng)
  case Nil
  then show ?case by simp
next
  case (Cons i "is")
  obtain buf' prng' where s: "shuffle_step n i (buf, prng) = (buf', prng')"
    by (cases "shuffle_step n i (buf, prng)")
  from Cons.prems have "i < n" by simp
  from shuffle_step_keeps[OF this Cons.prems(1,2), of prng] s
  have k: "mset buf' = mset buf" "length buf' = n" by simp_all
  from Cons.IH[OF Cons.prems(1) k(2), of prng'] Cons.prems(3)
  show ?case using s k by simp
qed

lemma concat_chunks:
  "concat (map (\<lambda>i. take t (drop (i * t) xs)) [0 ..< n]) = take (n * t) xs"
proof (induction n)
  case 0
  then show ?case by simp
next
  case (Suc n)
  have "take (n * t) xs @ take t (drop (n * t) xs) = take (n * t + t) xs"
    by (simp add: take_add)
  with Suc show ?case by (simp add: add.commute)
qed

text \<open>
  Claim C10. For every vector (of fewer than \<open>2^64\<close> elements, as every
  \<open>std::vector\<close> is) and every state of the random number generator, \<open>Algo::shuffle\<close>
  permutes the vector: the multiset of the elements after the shuffle is the multiset
  before, and the length is the same. In particular the block that
  \<open>SfenReader::file_read_worker\<close> shuffles and cuts into thread buffers, when it holds
  \<open>SFEN_READ_SIZE\<close> samples and \<open>THREAD_BUFFER_SIZE\<close> divides \<open>SFEN_READ_SIZE\<close>, ends up
  in the buffers with no sample lost or duplicated.
\<close>

theorem shuffle_permutes:
  "length buf < 2 ^ 64 \<Longrightarrow>
     mset (fst (shuffle buf prng)) = mset buf
     \<and> length (fst (shuffle buf prng)) = length buf
     \<and> (length buf = SFEN_READ_SIZE \<and> SFEN_READ_SIZE mod THREAD_BUFFER_SIZE = 0
        \<longrightarrow> mset (concat (fst (shuffle_block SFEN_READ_SIZE THREAD_BUFFER_SIZE no_shuffle buf prng)))
            = mset buf)"
proof -
  assume l: "length buf < 2 ^ 64"
  have k: "mset (fst (shuffle buf prng)) = mset buf \<and> length (fst (shuffle buf prng)) = length buf"
    unfolding shuffle_def using shuffle_fold_keeps[OF l refl, of "[0 ..< length buf]" prng] by simp
  have "mset (concat (fst (shuffle_block SFEN_READ_SIZE THREAD_BUFFER_SIZE no_shuffle buf prng)))
            = mset buf"
    if "length buf = SFEN_READ_SIZE" "SFEN_READ_SIZE mod THREAD_BUFFER_SIZE = 0"
  proof -
    have m: "SFEN_READ_SIZE div THREAD_BUFFER_SIZE * THREAD_BUFFER_SIZE = SFEN_READ_SIZE"
      using that(2) by (simp add: mod_0_imp_dvd)
    show ?thesis
    proof (cases no_shuffle)
      case True
      then show ?thesis using that(1) m by (simp add: shuffle_block_def concat_chunks)
    next
      case False
      obtain b p where s: "shuffle buf prng = (b, p)" by (cases "shuffle buf prng")
      with k have "mset b = mset buf" "length b = length buf" by simp_all
      then show ?thesis using False s that(1) m by (simp add: shuffle_block_def concat_chunks)
    qed
  qed
  with k show ?thesis by simp
qed

lemma shuffle_example: "fst (shuffle [10 :: nat, 20, 30, 40] 12345) = [10, 40, 30, 20]"
  by code_simp

lemma shuffle_block_example:
  "fst (shuffle_block 4 2 False [10 :: nat, 20, 30, 40] 12345) = [[10, 40], [30, 20]]"
  by code_simp

theorem shuffle_permutes_witness:
  "length [10 :: nat, 20, 30, 40] < 2 ^ 64
   \<and> fst (shuffle [10 :: nat, 20, 30, 40] 12345) = [10, 40, 30, 20]
   \<and> mset (fst (shuffle [10 :: nat, 20, 30, 40] 12345)) = mset [10, 20, 30, 40]
   \<and> fst (shuffle_block 4 2 False [10 :: nat, 20, 30, 40] 12345) = [[10, 40], [30, 20]]"
  using shuffle_permutes [of "[10 :: nat, 20, 30, 40]" 12345 4 2 False]
  by (simp only: shuffle_example shuffle_block_example) simp

section \<open>SharedInputTrainer::create\<close>

lemma create_Some:
  "create ft (Some i) = Some (i\<lparr> num_referrers := num_referrers i + 1 \<rparr>)"
  by (simp add: create_def)

lemma create_all_Some:
  "create_all fts (Some i) = Some (i\<lparr> num_referrers := num_referrers i + of_nat (length fts) \<rparr>)"
  unfolding create_all_def
  by (induction fts arbitrary: i) (simp_all add: create_Some)

lemma create_all_fresh:
  "create_all (ft # fts) None
     = Some ((SharedInputTrainer_new ft)\<lparr> num_referrers := of_nat (Suc (length fts)) \<rparr>)"
proof -
  have "create_all (ft # fts) None = create_all fts (create ft None)"
    by (simp add: create_all_def)
  also have "create ft None = Some ((SharedInputTrainer_new ft)\<lparr> num_referrers := 1 \<rparr>)"
    by (simp add: create_def SharedInputTrainer_new_def)
  finally show ?thesis
    by (simp add: create_all_Some)
qed

text \<open>
  Claim C2, as amended. Once \<open>create\<close> has been called, exactly one \<open>SharedInputTrainer\<close>
  instance exists, whatever feature transformers the calls pass: it belongs to the
  feature transformer of the first call, every further call returns this instance and
  increments its referrer count by one, and the count is the number of \<open>create\<close> calls
  made so far (modulo \<open>2^32\<close>). When every call passes the same feature transformer,
  this is the invariant as the data model states it.
\<close>

theorem create_shares_one_instance:
  "map underlying (instances (create_all (ft # fts) None :: ('ft, 'a) SharedInputTrainer option)) = [ft]
   \<and> map num_referrers (instances (create_all (ft # fts) None :: ('ft, 'a) SharedInputTrainer option))
       = [of_nat (Suc (length fts))]
   \<and> create ft' (create_all (ft # fts) None :: ('ft, 'a) SharedInputTrainer option)
       = Some ((SharedInputTrainer_new ft)\<lparr> num_referrers := of_nat (Suc (length fts)) + 1 \<rparr>)
   \<and> one_instance_per_transformer (replicate (Suc n) ft)
        (create_all (replicate (Suc n) ft) None :: ('ft, 'a) SharedInputTrainer option)"
proof -
  have r: "replicate (Suc n) ft = ft # replicate n ft" by simp
  have c: "count_list (replicate n ft) ft = n" by (induction n) simp_all
  show ?thesis
    unfolding r
    by (simp add: create_all_fresh instances_def underlying_def SharedInputTrainer_new_def
        FT_create_def create_Some one_instance_per_transformer_def c)
qed

theorem create_shares_one_instance_witness:
  "map underlying (instances (create_all [1 :: nat, 1, 1] None :: (nat, int) SharedInputTrainer option)) = [1]
   \<and> map num_referrers (instances (create_all [1 :: nat, 1, 1] None :: (nat, int) SharedInputTrainer option)) = [3]
   \<and> one_instance_per_transformer [1 :: nat, 1, 1]
        (create_all [1 :: nat, 1, 1] None :: (nat, int) SharedInputTrainer option)"
  using create_shares_one_instance [of "1 :: nat" "[1, 1]" 1 2, where ?'a = int]
  by (simp add: numeral_3_eq_3 numeral_2_eq_2)

text \<open>
  Claim C2 as stated, one instance per feature transformer passed to \<open>create\<close>, fails
  for two feature transformers: after \<open>create\<close> for the first and \<open>create\<close> for the
  second there is one instance, it belongs to the first, its count is 2, and the
  second has none.
\<close>

theorem create_two_transformers_counterexample:
  "map underlying (instances (create_all [1 :: nat, 2] None :: (nat, int) SharedInputTrainer option)) = [1]
   \<and> map num_referrers (instances (create_all [1 :: nat, 2] None :: (nat, int) SharedInputTrainer option)) = [2]
   \<and> \<not> one_instance_per_transformer [1 :: nat, 2]
        (create_all [1 :: nat, 2] None :: (nat, int) SharedInputTrainer option)"
  by (simp add: create_all_def create_def instances_def underlying_def SharedInputTrainer_new_def
      FT_create_def one_instance_per_transformer_def)

section \<open>SharedInputTrainer::backpropagate\<close>







text \<open>
  Beyond that bound the offset wraps: with \<open>kInputDimensions = 2^31\<close> the third example
  of a batch starts at offset zero again.
\<close>

lemma gradient_index_wraps: "gradient_index 2147483648 2 5 = 5"
  by (simp add: gradient_index_def)















text \<open>
  In exact arithmetic (an additive monoid) the accumulated array is the element-wise
  sum in the usual sense.
\<close>

lemma foldl_plus_sum_list:
  fixes a :: "'a::monoid_add"
  shows "foldl (+) a xs = a + sum_list xs"
  by (induction xs arbitrary: a) (simp_all add: add.assoc)

lemma elementwise_sum_exact:
  fixes gs :: "'a::monoid_add list list"
  assumes "\<forall>g \<in> set gs. n \<le> length g"
  shows "elementwise_sum n gs = map (\<lambda>j. sum_list (map (\<lambda>g. g ! j) gs)) [0 ..< n]"
proof (cases "length gs = 1")
  case True
  then obtain g where g: "gs = [g]"
    by (cases gs) auto
  have "take n g = map (\<lambda>j. g ! j) [0 ..< n]"
    using assms g by (intro nth_equalityI) simp_all
  then show ?thesis
    using g by (simp add: elementwise_sum_def)
next
  case False
  then show ?thesis
    by (simp add: elementwise_sum_def accumulated_def foldl_plus_sum_list)
qed


text \<open>
  The example trainer is the state after three \<open>create\<close> calls and the three
  \<open>propagate\<close> calls of a batch of one example, up to the old entries in its buffer.
\<close>

lemma example_trainer_reached:
  "map_option (\<lambda>t. t\<lparr> gradients := [7, 7, 7] \<rparr>) (create_all [0, 0, 0] None) = Some t0
   \<Longrightarrow> propagate 2 1 t0 = Inr t1 \<Longrightarrow> propagate 2 1 t1 = Inr t2
   \<Longrightarrow> propagate 2 1 t2 = Inr example_trainer"
  by (auto simp add: create_all_def create_def SharedInputTrainer_new_def propagate_def
      count_call_def example_trainer_def FT_propagate_def FT_create_def Let_def)



section \<open>Newbob scheduling\<close>

text \<open>
  Claim C7, as amended. After a checkpoint save that is not the final one, without
  \<open>save_only_once\<close>, with newbob scheduling enabled (decay \<open>\<noteq> 1\<close> and at least one
  validation-loss sample) and without \<open>auto_lr_drop\<close>: if the new validation loss is
  below the best loss so far, the checkpoint is accepted (it becomes the best loss and
  the best directory), the trial counter is reset to \<open>newbob_num_trials\<close> and the
  learning rate is kept; otherwise the best loss is kept, the trial counter is
  decremented, and the learning rate is multiplied by the decay factor if trials
  remain (the counter is still positive), and kept if not. \<open>save\<close> reports
  convergence exactly when the trial counter is zero afterwards, and \<open>thread_worker\<close>
  then sets both stop flags, which ends every learner thread's loop.
\<close>

theorem newbob_schedule:
  assumes "\<not> save_only_once s" and "newbob_decay s \<noteq> 1" and "latest_loss_count s > 0"
    and "auto_lr_drop s = 0"
  shows "(if latest_loss s < best_loss s
          then best_loss (snd (save False s)) = latest_loss s
               \<and> best_nn_directory (snd (save False s)) = Dir_numbered (dir_number s)
               \<and> trials (snd (save False s)) = Some (newbob_num_trials s)
               \<and> global_learning_rate (snd (save False s)) = global_learning_rate s
          else best_loss (snd (save False s)) = best_loss s
               \<and> trials (snd (save False s)) = Some (current_trials s - 1)
               \<and> global_learning_rate (snd (save False s))
                    = (if current_trials s - 1 > 0
                       then global_learning_rate s * newbob_decay s
                       else global_learning_rate s))
         \<and> (fst (save False s) \<longleftrightarrow> trials (snd (save False s)) = Some 0)
         \<and> (fst (save_checkpoint s) \<longleftrightarrow> trials (snd (save False s)) = Some 0)
         \<and> (if fst (save_checkpoint s)
             then stop_flag (snd (save_checkpoint s)) \<and> sr_stop_flag (snd (save_checkpoint s))
             else stop_flag (snd (save_checkpoint s)) = stop_flag s
                  \<and> sr_stop_flag (snd (save_checkpoint s)) = sr_stop_flag s)"
  using assms
  by (auto simp add: save_def save_checkpoint_def newbob_branches_def Let_def current_trials_def
      latest_loss_def split: option.splits)

theorem newbob_schedule_witness:
  "\<not> save_only_once (example_learner\<lparr> trials := Some 2 \<rparr>) \<and> newbob_decay (example_learner\<lparr> trials := Some 2 \<rparr>) \<noteq> 1
   \<and> latest_loss_count (example_learner\<lparr> trials := Some 2 \<rparr>) > 0
   \<and> auto_lr_drop (example_learner\<lparr> trials := Some 2 \<rparr>) = 0
   \<and> trials (snd (save False (example_learner\<lparr> trials := Some 2 \<rparr>))) = Some 1
   \<and> global_learning_rate (snd (save False (example_learner\<lparr> trials := Some 2 \<rparr>))) = 1/2
   \<and> \<not> fst (save False (example_learner\<lparr> trials := Some 2 \<rparr>))
   \<and> fst (save_checkpoint example_learner)
   \<and> stop_flag (snd (save_checkpoint example_learner))"
  using newbob_schedule [of "example_learner\<lparr> trials := Some 2 \<rparr>"] newbob_schedule [of example_learner]
  by (simp add: example_learner_def save_def save_checkpoint_def newbob_branches_def latest_loss_def
      current_trials_def Let_def)

text \<open>
  Claim C7 as stated fails on the last trial: with one trial left and a loss that did
  not improve, the counter drops to zero and the learning rate stays 1, where the
  claim has it multiplied by the decay factor, to one half.
\<close>

theorem newbob_last_trial_counterexample:
  "\<not> save_only_once example_learner \<and> newbob_decay example_learner \<noteq> 1 \<and> latest_loss_count example_learner > 0
   \<and> \<not> latest_loss example_learner < best_loss example_learner
   \<and> trials example_learner = Some 1
   \<and> trials (snd (save False example_learner)) = Some 0
   \<and> global_learning_rate example_learner = 1
   \<and> global_learning_rate (snd (save False example_learner)) = 1
   \<and> global_learning_rate example_learner * newbob_decay example_learner = 1/2"
  by (simp add: example_learner_def save_def newbob_branches_def latest_loss_def Let_def)

section \<open>Game adjudication: the order of the checks\<close>

text \<open>
  The loop over the score history finds a draw exactly when the history holds at
  least eight scores and the last eight are zero.
\<close>

lemma adj_draw_loop_counts:
  "0 \<le> c \<Longrightarrow> c < 8 \<Longrightarrow>
   adj_draw_loop xs c
     = (nat (8 - c) \<le> length xs \<and> (\<forall>x \<in> set (take (nat (8 - c)) xs). x = 0))"
proof (induction xs arbitrary: c)
  case Nil
  then show ?case by simp
next
  case (Cons x xs)
  show ?case
  proof (cases "c + 1 \<ge> 8")
    case True
    with Cons.prems have c: "c = 7" by simp
    then show ?thesis by (simp add: adj_draw_score_def adj_draw_cnt_def)
  next
    case False
    with Cons.prems have b: "0 \<le> c + 1" "c + 1 < 8" by simp_all
    have n: "nat (8 - c) = Suc (nat (8 - (c + 1)))" using b by simp
    show ?thesis
      using Cons.IH [OF b] False
      by (simp only: n) (auto simp add: adj_draw_score_def adj_draw_cnt_def)
  qed
qed

text \<open>The low-score rule of the code is check (3) as the amended claim words it.\<close>

lemma consecutive_low_score_draw_meaning:
  "consecutive_low_score_draw cfg scores
     = (detect_draw_by_consecutive_low_score cfg \<and> 80 \<le> length scores
        \<and> last_8_scores_zero scores)"
  using adj_draw_loop_counts [of 0 "rev scores"]
  by (auto simp add: consecutive_low_score_draw_def last_8_scores_zero_def adj_draw_ply_def)

text \<open>\<open>get_current_game_result\<close> applies the checks (1) to (4) in their order.\<close>

lemma get_current_game_result_in_order:
  "get_current_game_result cfg pos scores = game_result_in_order cfg pos scores"
  by (simp add: get_current_game_result_def game_result_in_order_def Let_def
      consecutive_low_score_draw_meaning insufficient_material_draw_def VALUE_DRAW_def sign_def)

text \<open>
  The resign counter is the number of plies in a row, up to the latest one, whose
  absolute score reached the threshold.
\<close>

lemma resign_counter_counts_plies_in_a_row:
  "resign_counter_after cfg vs
     = int (length (takeWhile (\<lambda>v. \<bar>v\<bar> \<ge> eval_limit cfg) (rev vs)))"
  by (induction vs rule: rev_induct) (simp_all add: resign_counter_after_def)

text \<open>
  Claim C4, as amended. For every generator game and every ply at which adjudication
  runs, the outcomes are applied in this order, earlier checks taking precedence:
  (1) reaching the maximum recorded ply yields a draw; then a game end reported by the
  position's own rules (\<open>pos.is_game_end\<close>) yields the sign of the value it reports;
  (2) no legal moves yields the sign of the checkmate value when the side to move is
  in check and the sign of the stalemate value when it is not; (3) when the detection
  is enabled and ply 80 is reached, the last 8 scores all being zero yields a draw;
  (4) when the detection is enabled, insufficient mating material for both sides
  yields a draw; (5) only otherwise, an absolute score at or above the resign
  threshold yields a decisive result, 1 for a score at or above the threshold and -1
  below, when this is the fourth such ply in a row and the game may resign, or at
  once when the absolute score is at or above \<open>VALUE_KNOWN_WIN\<close>; in every other case
  there is no result and the game goes on. The second component is the resign counter
  after the ply. The last two conjuncts say what the counter holds in a game that
  went on through plies with the search values \<open>vs\<close>: \<open>thread_worker\<close> starts it at
  zero, and it is the number of plies in a row, up to the latest, with an absolute
  score at or above the threshold.
\<close>

theorem adjudication_priority:
  "adjudicate_ply cfg pos scores search_value should_resign resign_counter
     = (adjudication_in_order cfg pos scores search_value should_resign resign_counter,
        (case game_result_in_order cfg pos scores of
           Some result \<Rightarrow> resign_counter
         | None \<Rightarrow> if \<bar>search_value\<bar> \<ge> eval_limit cfg then resign_counter + 1 else 0))
   \<and> resign_counter_after cfg (vs @ [search_value])
       = (if \<bar>search_value\<bar> \<ge> eval_limit cfg then resign_counter_after cfg vs + 1 else 0)
   \<and> resign_counter_after cfg vs
       = int (length (takeWhile (\<lambda>v. \<bar>v\<bar> \<ge> eval_limit cfg) (rev vs)))"
proof (intro conjI)
  show "adjudicate_ply cfg pos scores search_value should_resign resign_counter
     = (adjudication_in_order cfg pos scores search_value should_resign resign_counter,
        (case game_result_in_order cfg pos scores of
           Some result \<Rightarrow> resign_counter
         | None \<Rightarrow> if \<bar>search_value\<bar> \<ge> eval_limit cfg then resign_counter + 1 else 0))"
    by (simp add: adjudicate_ply_def adjudication_in_order_def get_current_game_result_in_order
        split: option.splits)
  show "resign_counter_after cfg (vs @ [search_value])
       = (if \<bar>search_value\<bar> \<ge> eval_limit cfg then resign_counter_after cfg vs + 1 else 0)"
    by (simp add: resign_counter_after_def)
  show "resign_counter_after cfg vs
       = int (length (takeWhile (\<lambda>v. \<bar>v\<bar> \<ge> eval_limit cfg) (rev vs)))"
    by (rule resign_counter_counts_plies_in_a_row)
qed

text \<open>
  One input for each case, in order: the maximum ply, which comes before a checkmate;
  a game end by the rules, which comes before the resign rule; a checkmate; eighty
  plies of zero scores, and seventy-nine, where the game goes on; bare kings on both
  sides, and on one side only, where the resign rule decides; the fourth high score
  in a row, and the third, where the game goes on; a game that may not resign, which
  goes on whatever the counter; and a score at \<open>VALUE_KNOWN_WIN\<close>, which ends it at once.
  The last line is the counter after three high scores in a row.
\<close>

theorem adjudication_priority_witness:
  "adjudicate_ply (example_config\<lparr> write_maxply := 2 \<rparr>)
          (example_position\<lparr> is_game_end := False, rootMoves_empty := True, checkers := True \<rparr>)
          [10, 20] (- 32000) True 0 = (Some 0, 0)
   \<and> adjudicate_ply example_config example_position [10, 20] 5000 True 3 = (Some 0, 3)
   \<and> adjudicate_ply example_config
          (example_position\<lparr> is_game_end := True, game_end_value := - 32000 \<rparr>)
          [10, 20] 5000 True 3 = (Some (- 1), 3)
   \<and> adjudicate_ply example_config
          (example_position\<lparr> is_game_end := False, rootMoves_empty := True, checkers := True \<rparr>)
          [10, 20] (- 32000) True 0 = (Some (- 1), 0)
   \<and> adjudicate_ply example_config (example_position\<lparr> is_game_end := False \<rparr>)
            (replicate 80 0) 5000 True 3 = (Some 0, 3)
   \<and> adjudicate_ply example_config (example_position\<lparr> is_game_end := False \<rparr>)
            (replicate 79 0) 0 True 0 = (None, 0)
   \<and> adjudicate_ply example_config
            (example_position\<lparr> is_game_end := False, hasInsufficientMaterial := (\<lambda>c. True) \<rparr>)
            [10, 20] 5000 True 3 = (Some 0, 3)
   \<and> adjudicate_ply example_config
            (example_position\<lparr> is_game_end := False,
               hasInsufficientMaterial := (\<lambda>c. c = WHITE) \<rparr>)
            [10, 20] 5000 True 3 = (Some 1, 4)
   \<and> adjudicate_ply example_config (example_position\<lparr> is_game_end := False \<rparr>)
            [10, 20] (- 5000) True 3 = (Some (- 1), 4)
   \<and> adjudicate_ply example_config (example_position\<lparr> is_game_end := False \<rparr>)
            [10, 20] 5000 True 2 = (None, 3)
   \<and> adjudicate_ply example_config (example_position\<lparr> is_game_end := False \<rparr>)
            [10, 20] 5000 False 7 = (None, 8)
   \<and> adjudicate_ply example_config (example_position\<lparr> is_game_end := False \<rparr>)
            [10, 20] 10000 False 0 = (Some 1, 1)
   \<and> resign_counter_after example_config [0, 3100, - 3200, 3300] = 3"
  using adjudication_priority [where scores = "[10, 20]" and cfg = example_config
      and pos = "example_position\<lparr> is_game_end := False \<rparr>" and search_value = 5000
      and should_resign = True and resign_counter = 3 and vs = "[0, 3100, - 3200]"]
  by (simp add: get_current_game_result_in_order adjudicate_ply_def example_config_def
      example_position_def game_result_in_order_def last_8_scores_zero_def sign_def
      resign_counter_after_def)

text \<open>
  Claim C4 as stated has no check between the maximum ply and the missing legal
  moves, so with none of its checks (1) to (4) firing and the resign rule met it
  promises a decisive result. The code asks the position's rules first: at ply 3, with
  legal moves, scores far from zero, enough material, a score of 3400 against a
  threshold of 3000 for the fourth ply in a row and the permission to resign, a
  position that is a draw by the rules of the game is adjudicated a draw.
\<close>

theorem adjudication_game_end_counterexample:
  "int (length [3100 :: int, - 3200, 3300]) < write_maxply example_config
   \<and> \<not> rootMoves_empty example_position
   \<and> \<not> consecutive_low_score_draw example_config [3100, - 3200, 3300]
   \<and> \<not> insufficient_material_draw example_config example_position
   \<and> resign_rule example_config 3400 True 3
   \<and> fst (adjudicate_ply example_config example_position [3100, - 3200, 3300] 3400 True 3)
       = Some 0"
  by (simp add: example_config_def example_position_def adjudicate_ply_def
      get_current_game_result_def sign_def Let_def consecutive_low_score_draw_def
      insufficient_material_draw_def adj_draw_ply_def resign_rule_def)

section \<open>Result backfill\<close>

lemma assign_results_alternates:
  "assign_results next_count FINISHED is_win c ps = (rs, n, quit, c')
   \<Longrightarrow> length rs = length ps \<and> n \<le> length ps
       \<and> (\<forall>k < n. game_result (rs ! k) = (- 1) ^ Suc k * is_win)"
proof (induction ps arbitrary: is_win c rs n quit c')
  case Nil
  then show ?case by simp
next
  case (Cons p ps)
  obtain now c1 where nc: "next_count c = (now, c1)" by (cases "next_count c")
  show ?case
  proof (cases "now = FINISHED")
    case True
    with Cons.prems nc show ?thesis by (auto simp add: Let_def)
  next
    case False
    obtain rs' n' q' c2 where rec: "assign_results next_count FINISHED (- is_win) c1 ps = (rs', n', q', c2)"
      by (cases "assign_results next_count FINISHED (- is_win) c1 ps") auto
    from Cons.prems nc False rec
    have rs: "rs = p\<lparr> game_result := - is_win \<rparr> # rs'" and n: "n = Suc n'"
      by (auto simp add: Let_def)
    from Cons.IH[OF rec]
    have ih: "length rs' = length ps" "n' \<le> length ps"
      "\<forall>k < n'. game_result (rs' ! k) = (- 1) ^ Suc k * (- is_win)" by auto
    have "game_result (rs ! k) = (- 1) ^ Suc k * is_win" if "k < n" for k
    proof (cases k)
      case 0
      then show ?thesis using rs by simp
    next
      case (Suc j)
      with that n have "j < n'" by simp
      with ih(3) have "game_result (rs' ! j) = (- 1) ^ Suc j * (- is_win)" by blast
      then show ?thesis using rs Suc by simp
    qed
    then show ?thesis using rs n ih by simp
  qed
qed

text \<open>
  Walking the committed samples from the last to the first, the result changes sign
  from each sample to the one before it in the buffer.
\<close>

lemma commit_psv_alternates_by_position:
  assumes "commit_psv write_out_draw next_count FINISHED sfens lastTurnIsWin c
             = (quit, sfens', written, c')"
    and "k < length written"
  shows "game_result (rev written ! k) = game_result (last written) * (- 1) ^ k"
proof (cases "\<not> write_out_draw \<and> lastTurnIsWin = 0")
  case True
  with assms show ?thesis by (simp add: commit_psv_def)
next
  case False
  obtain rs n q c1 where ar: "assign_results next_count FINISHED lastTurnIsWin c (rev sfens) = (rs, n, q, c1)"
    by (cases "assign_results next_count FINISHED lastTurnIsWin c (rev sfens)") auto
  from assign_results_alternates[OF ar]
  have len: "length rs = length sfens" and n: "n \<le> length sfens"
    and alt: "\<forall>k < n. game_result (rs ! k) = (- 1) ^ Suc k * lastTurnIsWin" by auto
  from assms(1) False ar have w: "written = drop (length rs - n) (rev rs)"
    by (auto simp add: commit_psv_def)
  have rw: "rev written = take n rs"
    using w len n by (simp add: rev_drop)
  from assms(2) w len n have kn: "k < n" by simp
  then have n0: "0 < n" by simp
  have "last written = hd (rev written)"
    using assms(2) by (metis hd_rev length_greater_0_conv gr_implies_not0 list.size(3) rev_rev_ident)
  also have "\<dots> = rs ! 0" using rw n0 len n by (cases rs) auto
  finally have l: "game_result (last written) = - lastTurnIsWin"
    using alt n0 by simp
  have "game_result (rev written ! k) = (- 1) ^ Suc k * lastTurnIsWin"
    using rw kn alt by simp
  then show ?thesis using l by simp
qed

text \<open>
  Claim C3 asks for the result \<open>r * (-1)^N\<close> at the record \<open>N\<close> plies before the last
  one. The code alternates the sign once per buffered record, and \<open>thread_worker\<close>
  leaves a ply out of the buffer when the position's key is already in the hash table.
  In the example game ply 34 repeats ply 30 and is left out. The last record, ply 35,
  gets the result -1; the record of ply 33, two plies earlier, gets 1 where the claim
  gives \<open>(-1) * (-1)^2 = -1\<close>, and so on down to ply 30.
\<close>

theorem commit_psv_skipped_ply:
  "map gamePly example_game_buffer = [30, 31, 32, 33, 35]
   \<and> (case commit_psv True get_next_loop_count LOOP_COUNT_FINISHED example_game_buffer 1
             (0, 100) of
        (quit, sfens, written, c) \<Rightarrow>
          map gamePly written = [30, 31, 32, 33, 35]
          \<and> map game_result written = [- 1, 1, - 1, 1, - 1])"
  by (simp add: example_game_buffer_def save_position_def GENSFEN_HASH_SIZE_def Let_def
      commit_psv_def get_next_loop_count_def LOOP_COUNT_FINISHED_def word_le_nat_alt)

end
